theory Spec2Isabelle
  imports Main
begin

section \<open>The gRPC transport of protobuf-ts: packages/grpc-transport/src/grpc-transport.ts\<close>

text \<open>
  The transport adapts the generic RPC call objects of the runtime (a bundle of
  Deferreds, or an output stream controller) to the events of a grpc-js call.
  JavaScript objects are association lists in insertion order with distinct keys,
  exceptions are values of the type \<open>exn\<close>, and every event handler is a function
  from the state of the call before the event to the state after it.
\<close>

subsection \<open>JavaScript objects and values\<close>

datatype exn = TypeError | AssertionError | Error string

text \<open>\<open>o[k] = v\<close>: an existing key keeps its place, a new key goes last.\<close>

fun obj_set :: "string \<Rightarrow> 'v \<Rightarrow> (string \<times> 'v) list \<Rightarrow> (string \<times> 'v) list" where
  "obj_set k v [] = [(k, v)]"
| "obj_set k v (p # ps) = (if fst p = k then (k, v) # ps else p # obj_set k v ps)"

subsection \<open>The channel library: status codes and Metadata\<close>

text \<open>
  Modelled from the spec: the channel's numeric code table (the enum \<open>status\<close> of
  @grpc/grpc-js, imported as \<open>GrpcStatus\<close>; the library is not under src/).
  \<open>GrpcStatus[n]\<close> is the reverse mapping of the numeric enum: the name of the code
  \<open>n\<close>, or \<open>undefined\<close> (here \<open>None\<close>) when \<open>n\<close> is no code.
\<close>

definition GrpcStatus_table :: "(int \<times> string) list" where
  "GrpcStatus_table =
     [(0, ''OK''), (1, ''CANCELLED''), (2, ''UNKNOWN''), (3, ''INVALID_ARGUMENT''),
      (4, ''DEADLINE_EXCEEDED''), (5, ''NOT_FOUND''), (6, ''ALREADY_EXISTS''),
      (7, ''PERMISSION_DENIED''), (8, ''RESOURCE_EXHAUSTED''), (9, ''FAILED_PRECONDITION''),
      (10, ''ABORTED''), (11, ''OUT_OF_RANGE''), (12, ''UNIMPLEMENTED''), (13, ''INTERNAL''),
      (14, ''UNAVAILABLE''), (15, ''DATA_LOSS''), (16, ''UNAUTHENTICATED'')]"

definition GrpcStatus :: "int \<Rightarrow> string option" where
  "GrpcStatus n = map_of GrpcStatus_table n"

definition GrpcStatus_OK :: int where
  "GrpcStatus_OK = 0"

definition GrpcStatus_DATA_LOSS :: int where
  "GrpcStatus_DATA_LOSS = 15"

text \<open>
  The class \<open>Metadata\<close> of @grpc/grpc-js is not under src/ either, and nothing is
  assumed of it: an instance is what the two methods called in this file do on it.
  \<open>toHttp2Headers m\<close> is the object that \<open>m.toHttp2Headers()\<close> returns, an object
  whose values are \<open>undefined | number | string | string[]\<close>; a number is given by
  the string its \<open>toString()\<close> returns. \<open>add m k v\<close> is the outcome of
  \<open>m.add(k, v)\<close>: the exception the library throws (it validates names and values),
  or the instance after the call. Whether the library changes a name, joins values or
  rejects them is the instance's own behaviour. The constructor \<open>new Metadata(...)\<close>
  is a parameter wherever the code makes an instance; its argument is the option
  \<open>idempotentRequest\<close>, \<open>None\<close> when no options are given.
\<close>

datatype h2_value = H2Undefined | H2Number string | H2String string | H2Array "string list"

codatatype Metadata =
  Metadata (toHttp2Headers: "(string \<times> h2_value) list") (add: "string \<Rightarrow> string \<Rightarrow> exn + Metadata")

subsection \<open>Metadata codec: rpcMetaToGrpc and grpcMetaToRpc\<close>

text \<open>\<open>RpcMetadata\<close>: every header name maps to a string or to an array of strings.\<close>

datatype meta_value = Single string | Many "string list"

type_synonym RpcMetadata = "(string \<times> meta_value) list"

text \<open>
  The loops run over \<open>Object.keys\<close> and read each key back from the same object, so
  they run over the entries of the object. An exception of \<open>add\<close> leaves the loops
  of rpcMetaToGrpc at once. \<open>h2_to_meta\<close> is the loop of grpcMetaToRpc on the object
  that \<open>toHttp2Headers\<close> returned.
\<close>

fun add_each :: "string \<Rightarrow> string list \<Rightarrow> Metadata \<Rightarrow> exn + Metadata" where
  "add_each k [] to = Inr to"
| "add_each k (vv # vs) to = (case add to k vv of Inl x \<Rightarrow> Inl x | Inr to' \<Rightarrow> add_each k vs to')"

fun rpcMetaToGrpc_body :: "string \<times> meta_value \<Rightarrow> Metadata \<Rightarrow> exn + Metadata" where
  "rpcMetaToGrpc_body (k, Single s) to = add to k s"
| "rpcMetaToGrpc_body (k, Many vs) to = add_each k vs to"

fun rpcMetaToGrpc_loop :: "RpcMetadata \<Rightarrow> Metadata \<Rightarrow> exn + Metadata" where
  "rpcMetaToGrpc_loop [] to = Inr to"
| "rpcMetaToGrpc_loop (kv # from) to =
     (case rpcMetaToGrpc_body kv to of Inl x \<Rightarrow> Inl x | Inr to' \<Rightarrow> rpcMetaToGrpc_loop from to')"

definition rpcMetaToGrpc :: "(bool option \<Rightarrow> Metadata) \<Rightarrow> RpcMetadata \<Rightarrow> Metadata option \<Rightarrow> exn + Metadata" where
  "rpcMetaToGrpc new from base =
     rpcMetaToGrpc_loop from (case base of Some b \<Rightarrow> b | None \<Rightarrow> new None)"

fun grpcMetaToRpc_body :: "string \<times> h2_value \<Rightarrow> RpcMetadata \<Rightarrow> RpcMetadata" where
  "grpcMetaToRpc_body (k, H2Undefined) meta = meta"
| "grpcMetaToRpc_body (k, H2Number n) meta = obj_set k (Single n) meta"
| "grpcMetaToRpc_body (k, H2String s) meta = obj_set k (Single s) meta"
| "grpcMetaToRpc_body (k, H2Array a) meta = obj_set k (Many a) meta"

definition h2_to_meta :: "(string \<times> h2_value) list \<Rightarrow> RpcMetadata" where
  "h2_to_meta h2 = fold grpcMetaToRpc_body h2 []"

definition grpcMetaToRpc :: "Metadata \<Rightarrow> RpcMetadata" where
  "grpcMetaToRpc from = h2_to_meta (toHttp2Headers from)"

subsection \<open>Values of unknown type and the error classifier\<close>

text \<open>
  A value the channel hands to a listener typed \<open>any\<close>. An object carries its own
  properties and, apart from them, the properties it inherits from its prototype
  chain, \<open>hasOwnProperty\<close> of \<open>Object.prototype\<close> among them when the chain
  reaches it; a \<open>Metadata\<close> instance is an object of its own kind, which inherits
  from \<open>Object.prototype\<close> and has none of the properties asked for here.
  \<open>JHasOwnProperty\<close> is the function \<open>Object.prototype.hasOwnProperty\<close>; other
  function values and accessor properties are not modelled, so every other value
  is one that cannot be called.
\<close>

datatype jsval =
    JUndefined
  | JNull
  | JBoolean bool
  | JNumber int
  | JString string
  | JHasOwnProperty
  | JMetadata Metadata
  | JObject "(string \<times> jsval) list" "(string \<times> jsval) list"

fun typeof :: "jsval \<Rightarrow> string" where
  "typeof JUndefined = ''undefined''"
| "typeof JNull = ''object''"
| "typeof (JBoolean b) = ''boolean''"
| "typeof (JNumber n) = ''number''"
| "typeof (JString s) = ''string''"
| "typeof JHasOwnProperty = ''function''"
| "typeof (JMetadata m) = ''object''"
| "typeof (JObject own inherited) = ''object''"

fun truthy :: "jsval \<Rightarrow> bool" where
  "truthy JUndefined = False"
| "truthy JNull = False"
| "truthy (JBoolean b) = b"
| "truthy (JNumber n) = (n \<noteq> 0)"
| "truthy (JString s) = (s \<noteq> [])"
| "truthy JHasOwnProperty = True"
| "truthy (JMetadata m) = True"
| "truthy (JObject own inherited) = True"

text \<open>
  \<open>arg.p\<close> on a value that is neither \<open>null\<close> nor \<open>undefined\<close>: the own property,
  else the inherited one, else \<open>undefined\<close>. (Of the names read in this file a
  \<open>Metadata\<close> instance has \<open>hasOwnProperty\<close> alone, the inherited one; the
  properties of primitives are not read.)
\<close>

fun get_prop :: "jsval \<Rightarrow> string \<Rightarrow> jsval" where
  "get_prop (JObject own inherited) p =
     (case map_of own p of
        Some v \<Rightarrow> v
      | None \<Rightarrow> (case map_of inherited p of Some v \<Rightarrow> v | None \<Rightarrow> JUndefined))"
| "get_prop (JMetadata m) p = (if p = ''hasOwnProperty'' then JHasOwnProperty else JUndefined)"
| "get_prop v p = JUndefined"

text \<open>What \<open>Object.prototype.hasOwnProperty\<close> answers when it is called on \<open>arg\<close>.\<close>

fun Object_hasOwnProperty :: "jsval \<Rightarrow> string \<Rightarrow> bool" where
  "Object_hasOwnProperty (JObject own inherited) p = (p \<in> set (map fst own))"
| "Object_hasOwnProperty v p = False"

text \<open>
  The method call \<open>arg.hasOwnProperty(p)\<close> of line 35: the method is looked up on
  the argument itself, and calling what is not a function throws a TypeError.
\<close>

definition hasOwnProperty :: "jsval \<Rightarrow> string \<Rightarrow> exn + bool" where
  "hasOwnProperty arg p =
     (case get_prop arg ''hasOwnProperty'' of
        JHasOwnProperty \<Rightarrow> Inr (Object_hasOwnProperty arg p)
      | _ \<Rightarrow> Inl TypeError)"

text \<open>\<open>rp.every(p => arg.hasOwnProperty(p))\<close>: in order, up to the first \<open>false\<close>.\<close>

fun every_hasOwnProperty :: "jsval \<Rightarrow> string list \<Rightarrow> exn + bool" where
  "every_hasOwnProperty arg [] = Inr True"
| "every_hasOwnProperty arg (p # rp) =
     (case hasOwnProperty arg p of
        Inl x \<Rightarrow> Inl x
      | Inr b \<Rightarrow> (if b then every_hasOwnProperty arg rp else Inr False))"

definition isServiceError :: "jsval \<Rightarrow> exn + bool" where
  "isServiceError arg =
     (if typeof arg \<noteq> ''object'' \<or> \<not> truthy arg then Inr False
      else (case every_hasOwnProperty arg [''code'', ''details'', ''metadata'', ''name'', ''message''] of
              Inl x \<Rightarrow> Inl x
            | Inr every \<Rightarrow>
                (if \<not> every then Inr False
                 else Inr (typeof (get_prop arg ''code'') = ''number''
                         \<and> typeof (get_prop arg ''details'') = ''string''
                         \<and> typeof (get_prop arg ''metadata'') = ''object''
                         \<and> typeof (get_prop arg ''name'') = ''string''
                         \<and> typeof (get_prop arg ''message'') = ''string''))))"

text \<open>
  \<open>new RpcError(message, code, meta)\<close>; an argument that is left out or \<open>undefined\<close>
  is \<open>None\<close>. The message is whatever \<open>err.message\<close> evaluates to.
\<close>

datatype RpcError = RpcError jsval "string option" "RpcMetadata option"

text \<open>\<open>GrpcStatus[err.code]\<close> and \<open>grpcMetaToRpc(err.metadata)\<close> on values of unknown type.\<close>

fun GrpcStatus_of :: "jsval \<Rightarrow> string option" where
  "GrpcStatus_of (JNumber n) = GrpcStatus n"
| "GrpcStatus_of v = None"

fun grpcMetaToRpc_of :: "jsval \<Rightarrow> exn + RpcMetadata" where
  "grpcMetaToRpc_of (JMetadata m) = Inr (grpcMetaToRpc m)"
| "grpcMetaToRpc_of v = Inl TypeError"

text \<open>
  Line 191, the classification of the \<open>error\<close> event's argument. Reading
  \<open>err.message\<close> from \<open>null\<close> or \<open>undefined\<close> throws a TypeError.
\<close>

definition classify :: "jsval \<Rightarrow> exn + RpcError" where
  "classify err =
     (case isServiceError err of
        Inl x \<Rightarrow> Inl x
      | Inr service \<Rightarrow>
          (if service
           then (case grpcMetaToRpc_of (get_prop err ''metadata'') of
                   Inl x \<Rightarrow> Inl x
                 | Inr m \<Rightarrow> Inr (RpcError (get_prop err ''message'') (GrpcStatus_of (get_prop err ''code'')) (Some m)))
           else (case err of
                   JUndefined \<Rightarrow> Inl TypeError
                 | JNull \<Rightarrow> Inl TypeError
                 | _ \<Rightarrow> Inr (RpcError (get_prop err ''message'') None None))))"

subsection \<open>Deferred and RpcOutputStreamController (package runtime-rpc)\<close>

text \<open>
  Modelled from the spec: the class \<open>Deferred\<close> of @protobuf-ts/runtime-rpc, which is
  not under src/. A Deferred is pending, resolved with a value, or rejected with a
  reason; the transition out of pending is one-way, and "later settlement attempts
  after the first are no-ops", for \<open>resolve\<close> and \<open>reject\<close> as for
  \<open>resolvePending\<close> and \<open>rejectPending\<close>.
\<close>

datatype 'a Deferred = PENDING | RESOLVED 'a | REJECTED RpcError

definition resolve :: "'a Deferred \<Rightarrow> 'a \<Rightarrow> 'a Deferred" where
  "resolve d v = (case d of PENDING \<Rightarrow> RESOLVED v | _ \<Rightarrow> d)"

definition reject :: "'a Deferred \<Rightarrow> RpcError \<Rightarrow> 'a Deferred" where
  "reject d e = (case d of PENDING \<Rightarrow> REJECTED e | _ \<Rightarrow> d)"

definition resolvePending :: "'a Deferred \<Rightarrow> 'a \<Rightarrow> 'a Deferred" where
  "resolvePending d v = (if d = PENDING then resolve d v else d)"

definition rejectPending :: "'a Deferred \<Rightarrow> RpcError \<Rightarrow> 'a Deferred" where
  "rejectPending d e = (if d = PENDING then reject d e else d)"

text \<open>
  Modelled from the spec: the class \<open>RpcOutputStreamController\<close> of
  @protobuf-ts/runtime-rpc, not under src/. The stream is open, closed normally or
  closed with an error; \<open>pushed\<close> are the messages handed to the consumer so far.
  "After notifyComplete or notifyError has closed the stream, any further
  notifyMessage/notifyError/notifyComplete call is ignored."
\<close>

datatype stream_state = OPEN | CLOSED_NORMALLY | CLOSED_WITH_ERROR RpcError

record 'o RpcOutputStreamController =
  pushed :: "'o list"
  stream_state :: stream_state

definition new_RpcOutputStreamController :: "'o RpcOutputStreamController" where
  "new_RpcOutputStreamController = \<lparr>pushed = [], stream_state = OPEN\<rparr>"

definition closed :: "'o RpcOutputStreamController \<Rightarrow> bool" where
  "closed c = (stream_state c \<noteq> OPEN)"

definition notifyMessage :: "'o \<Rightarrow> 'o RpcOutputStreamController \<Rightarrow> 'o RpcOutputStreamController" where
  "notifyMessage m c = (if closed c then c else c\<lparr>pushed := pushed c @ [m]\<rparr>)"

definition notifyError :: "RpcError \<Rightarrow> 'o RpcOutputStreamController \<Rightarrow> 'o RpcOutputStreamController" where
  "notifyError e c = (if closed c then c else c\<lparr>stream_state := CLOSED_WITH_ERROR e\<rparr>)"

definition notifyComplete :: "'o RpcOutputStreamController \<Rightarrow> 'o RpcOutputStreamController" where
  "notifyComplete c = (if closed c then c else c\<lparr>stream_state := CLOSED_NORMALLY\<rparr>)"

subsection \<open>What a call reads and what it builds\<close>

text \<open>
  The channel's \<open>StatusObject\<close> (the argument of the \<open>status\<close> event) and its
  \<open>ServiceError\<close> (the first argument of the completion callback), a
  \<open>StatusObject\<close> that is an \<open>Error\<close> as well; of the \<open>Error\<close> part only
  \<open>message\<close> is read.
\<close>

record StatusObject =
  code :: int
  details :: string
  metadata :: Metadata

record ServiceError = StatusObject +
  message :: string

text \<open>\<open>RpcStatus\<close>, the object literal \<open>{code: ..., detail: ...}\<close>, in that order.\<close>

datatype RpcStatus = RpcStatus "string option" string

text \<open>
  Of \<open>MethodInfo\<close> the transport reads \<open>service.typeName\<close>, \<open>name\<close>,
  \<open>idempotency\<close> and the type guard \<open>O.is\<close>; of \<open>GrpcOptions\<close> the model keeps
  \<open>host\<close>, \<open>meta\<close> and \<open>abort\<close> (credentials, client options and binary options
  are handed to the channel library unread).
\<close>

record 'o MethodInfo =
  typeName :: string
  name :: string
  idempotency :: "string option"
  O_is :: "'o \<Rightarrow> bool"

record AbortSignal =
  aborted :: bool

record GrpcOptions =
  host :: string
  meta :: "RpcMetadata option"
  abort :: "AbortSignal option"

text \<open>
  The channel library as a call meets it: its constructor \<open>new Metadata(...)\<close>, and
  the effects of the calls on it, the \<open>Client\<close> instances constructed (by host) and
  the requests opened through them, oldest first.
\<close>

datatype 'i Request =
    makeUnaryRequest string 'i Metadata
  | makeServerStreamRequest string 'i Metadata
  | makeClientStreamRequest string Metadata

record 'i grpc_js =
  new_Metadata :: "bool option \<Rightarrow> Metadata"
  clients :: "string list"
  requests :: "'i Request list"

text \<open>
  The state of one call: its Deferreds, the number of times \<open>gCall.cancel()\<close> has
  been invoked, and whether the listener for \<open>abort\<close> was registered on
  \<open>opt.abort\<close>.
\<close>

record call_state =
  defHeader :: "RpcMetadata Deferred"
  defStatus :: "RpcStatus Deferred"
  defTrailer :: "RpcMetadata Deferred"
  cancel_calls :: nat
  abort_listener :: bool

record 'o message_call = call_state +
  defMessage :: "'o Deferred"

record 'o stream_call = call_state +
  outStream :: "'o RpcOutputStreamController"

definition request_path :: "'o MethodInfo \<Rightarrow> string" where
  "request_path method = ''/'' @ typeName method @ ''/'' @ name method"

text \<open>\<open>gMeta\<close>, built first of all; the exception of \<open>add\<close> ends the call where it starts.\<close>

definition request_meta :: "'o MethodInfo \<Rightarrow> GrpcOptions \<Rightarrow> 'i grpc_js \<Rightarrow> exn + Metadata" where
  "request_meta method opt g =
     rpcMetaToGrpc (new_Metadata g) (case meta opt of Some m \<Rightarrow> m | None \<Rightarrow> [])
       (Some (new_Metadata g (Some (idempotency method = Some ''IDEMPOTENT''))))"

text \<open>The listener registered on \<open>opt.abort\<close>, the same in the three call shapes.\<close>

definition on_abort :: "'a call_state_scheme \<Rightarrow> 'a call_state_scheme" where
  "on_abort s = (if abort_listener s then s\<lparr>cancel_calls := cancel_calls s + 1\<rparr> else s)"

subsection \<open>GrpcTransport.unary\<close>

definition unary :: "'o MethodInfo \<Rightarrow> 'i \<Rightarrow> GrpcOptions \<Rightarrow> 'i grpc_js \<Rightarrow> (exn + 'o message_call) \<times> 'i grpc_js" where
  "unary method input opt g =
     (case request_meta method opt g of
        Inl x \<Rightarrow> (Inl x, g)
      | Inr gMeta \<Rightarrow>
          (Inr \<lparr>defHeader = PENDING, defStatus = PENDING, defTrailer = PENDING,
                cancel_calls = 0, abort_listener = (abort opt \<noteq> None), defMessage = PENDING\<rparr>,
           g\<lparr>clients := clients g @ [host opt],
             requests := requests g @ [makeUnaryRequest (request_path method) input gMeta]\<rparr>))"

definition unary_callback :: "ServiceError option \<Rightarrow> 'o option \<Rightarrow> 'o message_call \<Rightarrow> 'o message_call" where
  "unary_callback err value s =
     (let s1 = (case value of Some v \<Rightarrow> s\<lparr>defMessage := resolve (defMessage s) v\<rparr> | None \<Rightarrow> s)
      in case err of
           None \<Rightarrow> s1
         | Some er \<Rightarrow>
             (let e = RpcError (JString (message er)) (GrpcStatus (code er)) (Some (grpcMetaToRpc (metadata er)))
              in s1\<lparr>defHeader := rejectPending (defHeader s1) e,
                    defMessage := rejectPending (defMessage s1) e,
                    defStatus := rejectPending (defStatus s1) e,
                    defTrailer := rejectPending (defTrailer s1) e\<rparr>))"

definition unary_on_metadata :: "Metadata \<Rightarrow> 'o message_call \<Rightarrow> 'o message_call" where
  "unary_on_metadata val s = s\<lparr>defHeader := resolve (defHeader s) (grpcMetaToRpc val)\<rparr>"

definition unary_on_status :: "StatusObject \<Rightarrow> 'o message_call \<Rightarrow> 'o message_call" where
  "unary_on_status val s =
     (if defMessage s = PENDING \<and> code val = GrpcStatus_OK
      then (let e = RpcError (JString ''expected error status'') (GrpcStatus GrpcStatus_DATA_LOSS) None
            in s\<lparr>defMessage := rejectPending (defMessage s) e,
                 defStatus := rejectPending (defStatus s) e,
                 defTrailer := rejectPending (defTrailer s) e\<rparr>)
      else s\<lparr>defStatus := resolvePending (defStatus s) (RpcStatus (GrpcStatus (code val)) (details val)),
             defTrailer := resolvePending (defTrailer s) (grpcMetaToRpc (metadata val))\<rparr>)"

text \<open>The events a unary or client-streaming call can receive, and a run of them.\<close>

datatype 'o call_event =
    Callback "ServiceError option" "'o option"
  | MetadataEvent Metadata
  | StatusEvent StatusObject
  | AbortEvent

fun unary_deliver :: "'o call_event \<Rightarrow> 'o message_call \<Rightarrow> 'o message_call" where
  "unary_deliver (Callback err value) s = unary_callback err value s"
| "unary_deliver (MetadataEvent val) s = unary_on_metadata val s"
| "unary_deliver (StatusEvent val) s = unary_on_status val s"
| "unary_deliver AbortEvent s = on_abort s"

definition unary_run :: "'o call_event list \<Rightarrow> 'o message_call \<Rightarrow> 'o message_call" where
  "unary_run evs s = fold unary_deliver evs s"

subsection \<open>GrpcTransport.clientStreaming\<close>

definition clientStreaming :: "'o MethodInfo \<Rightarrow> GrpcOptions \<Rightarrow> 'i grpc_js \<Rightarrow> (exn + 'o message_call) \<times> 'i grpc_js" where
  "clientStreaming method opt g =
     (case request_meta method opt g of
        Inl x \<Rightarrow> (Inl x, g)
      | Inr gMeta \<Rightarrow>
          (Inr \<lparr>defHeader = PENDING, defStatus = PENDING, defTrailer = PENDING,
                cancel_calls = 0, abort_listener = (abort opt \<noteq> None), defMessage = PENDING\<rparr>,
           g\<lparr>clients := clients g @ [host opt],
             requests := requests g @ [makeClientStreamRequest (request_path method) gMeta]\<rparr>))"

definition clientStreaming_callback :: "ServiceError option \<Rightarrow> 'o option \<Rightarrow> 'o message_call \<Rightarrow> 'o message_call" where
  "clientStreaming_callback err value s =
     (let s1 = (case value of Some v \<Rightarrow> s\<lparr>defMessage := resolve (defMessage s) v\<rparr> | None \<Rightarrow> s)
      in case err of
           None \<Rightarrow> s1
         | Some er \<Rightarrow>
             (let e = RpcError (JString (message er)) (GrpcStatus (code er)) (Some (grpcMetaToRpc (metadata er)))
              in s1\<lparr>defHeader := rejectPending (defHeader s1) e,
                    defMessage := rejectPending (defMessage s1) e,
                    defStatus := rejectPending (defStatus s1) e,
                    defTrailer := rejectPending (defTrailer s1) e\<rparr>))"

definition clientStreaming_on_metadata :: "Metadata \<Rightarrow> 'o message_call \<Rightarrow> 'o message_call" where
  "clientStreaming_on_metadata val s = s\<lparr>defHeader := resolve (defHeader s) (grpcMetaToRpc val)\<rparr>"

definition clientStreaming_on_status :: "StatusObject \<Rightarrow> 'o message_call \<Rightarrow> 'o message_call" where
  "clientStreaming_on_status val s =
     s\<lparr>defStatus := resolvePending (defStatus s) (RpcStatus (GrpcStatus (code val)) (details val)),
       defTrailer := resolvePending (defTrailer s) (grpcMetaToRpc (metadata val))\<rparr>"

fun clientStreaming_deliver :: "'o call_event \<Rightarrow> 'o message_call \<Rightarrow> 'o message_call" where
  "clientStreaming_deliver (Callback err value) s = clientStreaming_callback err value s"
| "clientStreaming_deliver (MetadataEvent val) s = clientStreaming_on_metadata val s"
| "clientStreaming_deliver (StatusEvent val) s = clientStreaming_on_status val s"
| "clientStreaming_deliver AbortEvent s = on_abort s"

definition clientStreaming_run :: "'o call_event list \<Rightarrow> 'o message_call \<Rightarrow> 'o message_call" where
  "clientStreaming_run evs s = fold clientStreaming_deliver evs s"

subsection \<open>GrpcTransport.serverStreaming\<close>

definition serverStreaming :: "'o MethodInfo \<Rightarrow> 'i \<Rightarrow> GrpcOptions \<Rightarrow> 'i grpc_js \<Rightarrow> (exn + 'o stream_call) \<times> 'i grpc_js" where
  "serverStreaming method input opt g =
     (case request_meta method opt g of
        Inl x \<Rightarrow> (Inl x, g)
      | Inr gMeta \<Rightarrow>
          (Inr \<lparr>defHeader = PENDING, defStatus = PENDING, defTrailer = PENDING,
                cancel_calls = 0, abort_listener = (abort opt \<noteq> None),
                outStream = new_RpcOutputStreamController\<rparr>,
           g\<lparr>clients := clients g @ [host opt],
             requests := requests g @ [makeServerStreamRequest (request_path method) input gMeta]\<rparr>))"

text \<open>
  A listener that throws leaves \<open>Inl\<close> of the exception. The \<open>error\<close> listener can
  throw while it builds the RpcError, the \<open>data\<close> listener in its assertion
  (modelled from the spec: \<open>assert\<close> of @protobuf-ts/runtime, not under src/, fails
  fatally when its argument is false); both throw before they change anything.
\<close>

definition serverStreaming_on_error :: "jsval \<Rightarrow> 'o stream_call \<Rightarrow> exn + 'o stream_call" where
  "serverStreaming_on_error err s =
     (case classify err of
        Inl x \<Rightarrow> Inl x
      | Inr e \<Rightarrow>
          Inr (s\<lparr>defHeader := rejectPending (defHeader s) e,
                 outStream := (if \<not> closed (outStream s) then notifyError e (outStream s) else outStream s),
                 defStatus := rejectPending (defStatus s) e,
                 defTrailer := rejectPending (defTrailer s) e\<rparr>))"

definition serverStreaming_on_end :: "'o stream_call \<Rightarrow> 'o stream_call" where
  "serverStreaming_on_end s =
     s\<lparr>outStream := (if \<not> closed (outStream s) then notifyComplete (outStream s) else outStream s)\<rparr>"

definition serverStreaming_on_data :: "'o MethodInfo \<Rightarrow> 'o \<Rightarrow> 'o stream_call \<Rightarrow> exn + 'o stream_call" where
  "serverStreaming_on_data method arg1 s =
     (if \<not> O_is method arg1 then Inl AssertionError
      else Inr (s\<lparr>outStream := notifyMessage arg1 (outStream s)\<rparr>))"

definition serverStreaming_on_metadata :: "Metadata \<Rightarrow> 'o stream_call \<Rightarrow> 'o stream_call" where
  "serverStreaming_on_metadata val s = s\<lparr>defHeader := resolve (defHeader s) (grpcMetaToRpc val)\<rparr>"

definition serverStreaming_on_status :: "StatusObject \<Rightarrow> 'o stream_call \<Rightarrow> 'o stream_call" where
  "serverStreaming_on_status val s =
     s\<lparr>defStatus := resolvePending (defStatus s) (RpcStatus (GrpcStatus (code val)) (details val)),
       defTrailer := resolvePending (defTrailer s) (grpcMetaToRpc (metadata val))\<rparr>"

datatype 'o stream_event =
    ErrorEvent jsval
  | EndEvent
  | DataEvent 'o
  | StreamMetadataEvent Metadata
  | StreamStatusEvent StatusObject
  | StreamAbortEvent

fun serverStreaming_listener :: "'o MethodInfo \<Rightarrow> 'o stream_event \<Rightarrow> 'o stream_call \<Rightarrow> exn + 'o stream_call" where
  "serverStreaming_listener method (ErrorEvent err) s = serverStreaming_on_error err s"
| "serverStreaming_listener method EndEvent s = Inr (serverStreaming_on_end s)"
| "serverStreaming_listener method (DataEvent arg1) s = serverStreaming_on_data method arg1 s"
| "serverStreaming_listener method (StreamMetadataEvent val) s = Inr (serverStreaming_on_metadata val s)"
| "serverStreaming_listener method (StreamStatusEvent val) s = Inr (serverStreaming_on_status val s)"
| "serverStreaming_listener method StreamAbortEvent s = Inr (on_abort s)"

text \<open>The state after an event: that of the listener, or the unchanged one when it threw.\<close>

definition serverStreaming_deliver :: "'o MethodInfo \<Rightarrow> 'o stream_event \<Rightarrow> 'o stream_call \<Rightarrow> 'o stream_call" where
  "serverStreaming_deliver method ev s =
     (case serverStreaming_listener method ev s of Inl x \<Rightarrow> s | Inr s' \<Rightarrow> s')"

definition serverStreaming_run :: "'o MethodInfo \<Rightarrow> 'o stream_event list \<Rightarrow> 'o stream_call \<Rightarrow> 'o stream_call" where
  "serverStreaming_run method evs s = fold (serverStreaming_deliver method) evs s"

subsection \<open>GrpcTransport.duplex\<close>

datatype DuplexStreamingCall = DuplexStreamingCall

definition duplex :: "'o MethodInfo \<Rightarrow> GrpcOptions \<Rightarrow> 'i grpc_js \<Rightarrow> (exn + DuplexStreamingCall) \<times> 'i grpc_js" where
  "duplex method options g = (Inl (Error ''NOT IMPLEMENTED''), g)"

subsection \<open>Notions used to state the properties\<close>


text \<open>
  Encoding a generic metadata object with rpcMetaToGrpc (no base given) and decoding
  the result with grpcMetaToRpc: the exception of the encoding, or the object that
  comes back.
\<close>

definition roundtrip :: "(bool option \<Rightarrow> Metadata) \<Rightarrow> RpcMetadata \<Rightarrow> exn + RpcMetadata" where
  "roundtrip new m =
     (case rpcMetaToGrpc new m None of Inl x \<Rightarrow> Inl x | Inr to \<Rightarrow> Inr (grpcMetaToRpc to))"


subsection \<open>Sample inputs\<close>

text \<open>
  Two sample header sets, each built over the list of the names and their values in
  the order of arrival. The first returns for every name the array of its values. The
  second returns a name's only value as a plain string and an array otherwise, and
  refuses a name that ends in \<open>-bin\<close>.
\<close>

fun repr_add :: "string \<Rightarrow> string \<Rightarrow> (string \<times> string list) list \<Rightarrow> (string \<times> string list) list" where
  "repr_add k v [] = [(k, [v])]"
| "repr_add k v (p # ps) = (if fst p = k then (k, snd p @ [v]) # ps else p # repr_add k v ps)"

primcorec array_Metadata :: "(string \<times> string list) list \<Rightarrow> Metadata" where
  "toHttp2Headers (array_Metadata r) = map (\<lambda>(k, vs). (k, H2Array vs)) r"
| "add (array_Metadata r) = (\<lambda>k v. Inr (array_Metadata (repr_add k v r)))"


definition empty_Metadata :: Metadata where
  "empty_Metadata = array_Metadata []"

definition sample_method :: "string MethodInfo" where
  "sample_method = \<lparr>typeName = ''spec.Greeter'', name = ''Hello'', idempotency = None, O_is = (\<lambda>v. v \<noteq> [])\<rparr>"

definition sample_options :: GrpcOptions where
  "sample_options = \<lparr>host = ''localhost:5000'', meta = None, abort = Some \<lparr>aborted = True\<rparr>\<rparr>"

definition no_requests :: "string grpc_js" where
  "no_requests = \<lparr>new_Metadata = (\<lambda>options. array_Metadata []), clients = [], requests = []\<rparr>"

definition unavailable_error :: ServiceError where
  "unavailable_error =
     \<lparr>code = 14, details = ''down'', metadata = empty_Metadata, message = ''14 UNAVAILABLE: down''\<rparr>"

definition unavailable_status :: StatusObject where
  "unavailable_status = \<lparr>code = 14, details = ''down'', metadata = empty_Metadata\<rparr>"

definition ok_status :: StatusObject where
  "ok_status = \<lparr>code = 0, details = ''fine'', metadata = empty_Metadata\<rparr>"

text \<open>
  \<open>new Error("boom")\<close>; an object with the five own properties of a service error;
  and the same object with an own property \<open>hasOwnProperty\<close> that is the number 1.
\<close>

definition plain_error :: jsval where
  "plain_error =
     JObject [(''stack'', JString ''Error: boom''), (''message'', JString ''boom'')]
             [(''name'', JString ''Error''), (''hasOwnProperty'', JHasOwnProperty)]"

definition service_error_value :: jsval where
  "service_error_value =
     JObject [(''code'', JNumber 14), (''details'', JString ''down''),
              (''metadata'', JMetadata empty_Metadata), (''name'', JString ''Error''),
              (''message'', JString ''14 UNAVAILABLE: down'')]
             [(''hasOwnProperty'', JHasOwnProperty)]"

definition shadowed_error_value :: jsval where
  "shadowed_error_value =
     JObject [(''code'', JNumber 14), (''details'', JString ''down''),
              (''metadata'', JMetadata empty_Metadata), (''name'', JString ''Error''),
              (''message'', JString ''14 UNAVAILABLE: down''), (''hasOwnProperty'', JNumber 1)]
             [(''hasOwnProperty'', JHasOwnProperty)]"

text \<open>The calls that the three call shapes return on the sample inputs.\<close>

definition new_unary_call :: "string message_call" where
  "new_unary_call =
     \<lparr>defHeader = PENDING, defStatus = PENDING, defTrailer = PENDING,
      cancel_calls = 0, abort_listener = True, defMessage = PENDING\<rparr>"

definition new_clientStreaming_call :: "string message_call" where
  "new_clientStreaming_call =
     \<lparr>defHeader = PENDING, defStatus = PENDING, defTrailer = PENDING,
      cancel_calls = 0, abort_listener = True, defMessage = PENDING\<rparr>"

definition new_serverStreaming_call :: "string stream_call" where
  "new_serverStreaming_call =
     \<lparr>defHeader = PENDING, defStatus = PENDING, defTrailer = PENDING,
      cancel_calls = 0, abort_listener = True, outStream = new_RpcOutputStreamController\<rparr>"

text \<open>
  Calls that have already failed: a unary and a client-streaming call whose completion
  callback brought an error, a server-streaming call after an \<open>error\<close> event, and a
  server-streaming call that delivered one message and ended. The event lists are
  what a channel might still deliver afterwards.
\<close>

definition failed_unary_call :: "string message_call" where
  "failed_unary_call = unary_run [Callback (Some unavailable_error) None] new_unary_call"

definition failed_clientStreaming_call :: "string message_call" where
  "failed_clientStreaming_call =
     clientStreaming_run [Callback (Some unavailable_error) None] new_clientStreaming_call"

definition failed_serverStreaming_call :: "string stream_call" where
  "failed_serverStreaming_call =
     serverStreaming_run sample_method [ErrorEvent plain_error] new_serverStreaming_call"

definition ended_serverStreaming_call :: "string stream_call" where
  "ended_serverStreaming_call =
     serverStreaming_run sample_method [DataEvent ''a'', EndEvent] new_serverStreaming_call"

definition late_events :: "string call_event list" where
  "late_events =
     [StatusEvent ok_status, StatusEvent unavailable_status, MetadataEvent (empty_Metadata),
      Callback None (Some ''late''), Callback (Some unavailable_error) None]"

definition late_stream_events :: "string stream_event list" where
  "late_stream_events =
     [DataEvent ''b'', ErrorEvent service_error_value, EndEvent, StreamStatusEvent ok_status,
      StreamMetadataEvent (empty_Metadata), DataEvent []]"

section \<open>Properties\<close>

lemmas sample_defs = sample_method_def sample_options_def no_requests_def unavailable_error_def
  unavailable_status_def ok_status_def plain_error_def service_error_value_def shadowed_error_value_def
  new_unary_call_def new_clientStreaming_call_def new_serverStreaming_call_def
  failed_unary_call_def failed_clientStreaming_call_def failed_serverStreaming_call_def
  ended_serverStreaming_call_def late_events_def late_stream_events_def

lemmas eval_defs = unary_def clientStreaming_def serverStreaming_def request_meta_def
  unary_run_def clientStreaming_run_def serverStreaming_run_def
  unary_callback_def unary_on_metadata_def unary_on_status_def on_abort_def
  clientStreaming_callback_def clientStreaming_on_metadata_def clientStreaming_on_status_def
  serverStreaming_deliver_def serverStreaming_on_error_def serverStreaming_on_end_def
  serverStreaming_on_data_def serverStreaming_on_metadata_def serverStreaming_on_status_def
  resolve_def reject_def resolvePending_def rejectPending_def
  notifyMessage_def notifyError_def notifyComplete_def closed_def new_RpcOutputStreamController_def
  grpcMetaToRpc_def h2_to_meta_def rpcMetaToGrpc_def roundtrip_def empty_Metadata_def
  GrpcStatus_def GrpcStatus_table_def GrpcStatus_OK_def GrpcStatus_DATA_LOSS_def
  classify_def isServiceError_def hasOwnProperty_def Let_def

subsection \<open>Deferred: the first settlement stays\<close>

lemma settled_simps:
  "d \<noteq> PENDING \<Longrightarrow> resolve d v = d"
  "d \<noteq> PENDING \<Longrightarrow> reject d e = d"
  "d \<noteq> PENDING \<Longrightarrow> resolvePending d v = d"
  "d \<noteq> PENDING \<Longrightarrow> rejectPending d e = d"
  by (cases d; simp add: resolve_def reject_def resolvePending_def rejectPending_def)+

lemma pending_simps:
  "resolve PENDING v = RESOLVED v"
  "reject PENDING e = REJECTED e"
  "resolvePending PENDING v = RESOLVED v"
  "rejectPending PENDING e = REJECTED e"
  by (simp_all add: resolve_def reject_def resolvePending_def rejectPending_def)

lemma closed_notify:
  "closed c \<Longrightarrow> notifyMessage m c = c"
  "closed c \<Longrightarrow> notifyError e c = c"
  "closed c \<Longrightarrow> notifyComplete c = c"
  by (simp_all add: notifyMessage_def notifyError_def notifyComplete_def)

lemma GrpcStatus_DATA_LOSS_name: "GrpcStatus GrpcStatus_DATA_LOSS = Some ''DATA_LOSS''"
  by (simp add: GrpcStatus_def GrpcStatus_DATA_LOSS_def GrpcStatus_table_def)

subsection \<open>The status event of a unary call\<close>

text \<open>
  C1, as the code has it. When the \<open>status\<close> event of a unary call arrives while the
  message Deferred is pending and the code is OK, the message Deferred rejects with
  the RpcError \<open>expected error status\<close> of code DATA_LOSS, and so do the status and
  the trailer Deferred where they are still pending; the header Deferred is left as
  it is. Otherwise the status Deferred, if still pending, resolves with the code name
  and the detail string, the trailer Deferred, if still pending, resolves with the
  translated metadata, and message and header are left as they are. A status or
  trailer Deferred that is already settled keeps its outcome in both cases.
\<close>

theorem unary_status_settles_pending:
  "(defMessage s = PENDING \<and> code val = GrpcStatus_OK \<longrightarrow>
      defMessage (unary_on_status val s) = REJECTED (RpcError (JString ''expected error status'') (Some ''DATA_LOSS'') None)
    \<and> (defStatus s = PENDING \<longrightarrow>
         defStatus (unary_on_status val s) = REJECTED (RpcError (JString ''expected error status'') (Some ''DATA_LOSS'') None))
    \<and> (defTrailer s = PENDING \<longrightarrow>
         defTrailer (unary_on_status val s) = REJECTED (RpcError (JString ''expected error status'') (Some ''DATA_LOSS'') None))
    \<and> defHeader (unary_on_status val s) = defHeader s)
 \<and> (\<not> (defMessage s = PENDING \<and> code val = GrpcStatus_OK) \<longrightarrow>
      (defStatus s = PENDING \<longrightarrow>
         defStatus (unary_on_status val s) = RESOLVED (RpcStatus (GrpcStatus (code val)) (details val)))
    \<and> (defTrailer s = PENDING \<longrightarrow>
         defTrailer (unary_on_status val s) = RESOLVED (grpcMetaToRpc (metadata val)))
    \<and> defMessage (unary_on_status val s) = defMessage s
    \<and> defHeader (unary_on_status val s) = defHeader s)
 \<and> (defStatus s \<noteq> PENDING \<longrightarrow> defStatus (unary_on_status val s) = defStatus s)
 \<and> (defTrailer s \<noteq> PENDING \<longrightarrow> defTrailer (unary_on_status val s) = defTrailer s)"
  by (simp add: unary_on_status_def Let_def pending_simps settled_simps GrpcStatus_DATA_LOSS_name)

text \<open>
  The theorem at work: an OK status on a new call rejects message, status and trailer;
  an OK status after the reply resolves status and trailer.
\<close>

theorem unary_status_settles_pending_witness:
  "defMessage new_unary_call = PENDING \<and> code ok_status = GrpcStatus_OK
 \<and> defStatus new_unary_call = PENDING \<and> defTrailer new_unary_call = PENDING
 \<and> defMessage (unary_on_status ok_status new_unary_call) =
      REJECTED (RpcError (JString ''expected error status'') (Some ''DATA_LOSS'') None)
 \<and> defStatus (unary_on_status ok_status new_unary_call) =
      REJECTED (RpcError (JString ''expected error status'') (Some ''DATA_LOSS'') None)
 \<and> defTrailer (unary_on_status ok_status new_unary_call) =
      REJECTED (RpcError (JString ''expected error status'') (Some ''DATA_LOSS'') None)
 \<and> \<not> (defMessage (unary_callback None (Some ''reply'') new_unary_call) = PENDING \<and> code ok_status = GrpcStatus_OK)
 \<and> defStatus (unary_callback None (Some ''reply'') new_unary_call) = PENDING
 \<and> defTrailer (unary_callback None (Some ''reply'') new_unary_call) = PENDING
 \<and> defStatus (unary_on_status ok_status (unary_callback None (Some ''reply'') new_unary_call)) =
      RESOLVED (RpcStatus (Some ''OK'') ''fine'')
 \<and> defTrailer (unary_on_status ok_status (unary_callback None (Some ''reply'') new_unary_call)) = RESOLVED []"
proof -
  have new: "defMessage new_unary_call = PENDING" "defStatus new_unary_call = PENDING"
    "defTrailer new_unary_call = PENDING"
    by (simp_all add: new_unary_call_def unary_def)
  have ok: "code ok_status = GrpcStatus_OK" "GrpcStatus (code ok_status) = Some ''OK''"
    "details ok_status = ''fine''" "grpcMetaToRpc (metadata ok_status) = []"
    by (simp_all add: ok_status_def eval_defs)
  have replied: "defMessage (unary_callback None (Some ''reply'') new_unary_call) = RESOLVED ''reply''"
    "defStatus (unary_callback None (Some ''reply'') new_unary_call) = PENDING"
    "defTrailer (unary_callback None (Some ''reply'') new_unary_call) = PENDING"
    by (simp_all add: new_unary_call_def unary_def unary_callback_def resolve_def)
  show ?thesis
    using unary_status_settles_pending [of new_unary_call ok_status]
      unary_status_settles_pending [of "unary_callback None (Some ''reply'') new_unary_call" ok_status]
      new ok replied
    by simp
qed

text \<open>
  C1 as stated fails. After the completion callback has brought an error, the
  \<open>status\<close> event that follows finds the status Deferred rejected and leaves it so:
  it does not resolve with code name and detail. And when a first \<open>status\<close> event
  with an error code has resolved the status Deferred, a second one with code OK
  still finds the message pending, yet the status Deferred does not reject.
\<close>

theorem unary_status_after_settlement_counterexample:
  "\<not> (defMessage (unary_run [Callback (Some unavailable_error) None] new_unary_call) = PENDING
       \<and> code unavailable_status = GrpcStatus_OK)
   \<and> defStatus (unary_on_status unavailable_status (unary_run [Callback (Some unavailable_error) None] new_unary_call))
       \<noteq> RESOLVED (RpcStatus (GrpcStatus (code unavailable_status)) (details unavailable_status))
   \<and> defMessage (unary_run [StatusEvent unavailable_status] new_unary_call) = PENDING
   \<and> code ok_status = GrpcStatus_OK
   \<and> defStatus (unary_on_status ok_status (unary_run [StatusEvent unavailable_status] new_unary_call))
       \<noteq> REJECTED (RpcError (JString ''expected error status'') (Some ''DATA_LOSS'') None)"
  by (simp add: sample_defs eval_defs)

subsection \<open>The status event of a client-streaming call\<close>

text \<open>
  C2 does not hold of the code. The \<open>status\<close> listener of clientStreaming has no test
  for a pending message: on a new call an OK status resolves the status Deferred with
  OK and the trailer Deferred, and the message Deferred stays pending. The listener
  of unary rejects on the same input.
\<close>

theorem clientStreaming_ok_status_without_message:
  "defStatus (clientStreaming_run [StatusEvent ok_status] new_clientStreaming_call) =
     RESOLVED (RpcStatus (Some ''OK'') ''fine'')
 \<and> defTrailer (clientStreaming_run [StatusEvent ok_status] new_clientStreaming_call) = RESOLVED []
 \<and> defMessage (clientStreaming_run [StatusEvent ok_status] new_clientStreaming_call) = PENDING
 \<and> defStatus (unary_run [StatusEvent ok_status] new_unary_call) =
      REJECTED (RpcError (JString ''expected error status'') (Some ''DATA_LOSS'') None)"
  by (simp add: sample_defs eval_defs)

subsection \<open>The completion callback\<close>

text \<open>
  C5. When the completion callback of a unary call supplies an error, every Deferred
  that is still pending at the moment of the rejection rejects with one and the same
  RpcError, built from the error's message, the name of its status code and its
  translated metadata. Header, status and trailer are pending then exactly when they
  were pending before the callback; the message is pending then when it was pending
  before and the callback supplied no value (a value resolves it first).
\<close>

theorem unary_callback_error_rejects_pending:
  "(defHeader s = PENDING \<longrightarrow>
      defHeader (unary_callback (Some er) value s) =
        REJECTED (RpcError (JString (message er)) (GrpcStatus (code er)) (Some (grpcMetaToRpc (metadata er)))))
 \<and> (defMessage s = PENDING \<and> value = None \<longrightarrow>
      defMessage (unary_callback (Some er) value s) =
        REJECTED (RpcError (JString (message er)) (GrpcStatus (code er)) (Some (grpcMetaToRpc (metadata er)))))
 \<and> (defStatus s = PENDING \<longrightarrow>
      defStatus (unary_callback (Some er) value s) =
        REJECTED (RpcError (JString (message er)) (GrpcStatus (code er)) (Some (grpcMetaToRpc (metadata er)))))
 \<and> (defTrailer s = PENDING \<longrightarrow>
      defTrailer (unary_callback (Some er) value s) =
        REJECTED (RpcError (JString (message er)) (GrpcStatus (code er)) (Some (grpcMetaToRpc (metadata er)))))"
  by (cases "value") (simp_all add: unary_callback_def Let_def pending_simps)

text \<open>On a new call the error UNAVAILABLE rejects all four Deferreds with the same RpcError.\<close>

theorem unary_callback_error_rejects_pending_witness:
  "defHeader new_unary_call = PENDING \<and> defMessage new_unary_call = PENDING
 \<and> defStatus new_unary_call = PENDING \<and> defTrailer new_unary_call = PENDING
 \<and> defHeader (unary_callback (Some unavailable_error) None new_unary_call) =
      REJECTED (RpcError (JString ''14 UNAVAILABLE: down'') (Some ''UNAVAILABLE'') (Some []))
 \<and> defMessage (unary_callback (Some unavailable_error) None new_unary_call) =
      REJECTED (RpcError (JString ''14 UNAVAILABLE: down'') (Some ''UNAVAILABLE'') (Some []))
 \<and> defStatus (unary_callback (Some unavailable_error) None new_unary_call) =
      REJECTED (RpcError (JString ''14 UNAVAILABLE: down'') (Some ''UNAVAILABLE'') (Some []))
 \<and> defTrailer (unary_callback (Some unavailable_error) None new_unary_call) =
      REJECTED (RpcError (JString ''14 UNAVAILABLE: down'') (Some ''UNAVAILABLE'') (Some []))"
proof -
  have new: "defHeader new_unary_call = PENDING" "defMessage new_unary_call = PENDING"
    "defStatus new_unary_call = PENDING" "defTrailer new_unary_call = PENDING"
    by (simp_all add: new_unary_call_def unary_def)
  have err: "message unavailable_error = ''14 UNAVAILABLE: down''"
    "GrpcStatus (code unavailable_error) = Some ''UNAVAILABLE''"
    "grpcMetaToRpc (metadata unavailable_error) = []"
    by (simp_all add: unavailable_error_def eval_defs)
  show ?thesis
    using unary_callback_error_rejects_pending [of new_unary_call unavailable_error None] new err
    by simp
qed

text \<open>
  C9, as the code has it. When the completion callback of a unary or of a
  client-streaming call is invoked with a value and an error at once, the message
  Deferred, if still pending, resolves with the value (the rejection that follows
  finds it settled), and each of the header, status and trailer Deferreds that is
  still pending rejects with the classified error.
\<close>

theorem callback_value_and_error:
  "(defMessage u = PENDING \<longrightarrow> defMessage (unary_callback (Some er) (Some v) u) = RESOLVED v)
 \<and> (defHeader u = PENDING \<longrightarrow>
      defHeader (unary_callback (Some er) (Some v) u) =
        REJECTED (RpcError (JString (message er)) (GrpcStatus (code er)) (Some (grpcMetaToRpc (metadata er)))))
 \<and> (defStatus u = PENDING \<longrightarrow>
      defStatus (unary_callback (Some er) (Some v) u) =
        REJECTED (RpcError (JString (message er)) (GrpcStatus (code er)) (Some (grpcMetaToRpc (metadata er)))))
 \<and> (defTrailer u = PENDING \<longrightarrow>
      defTrailer (unary_callback (Some er) (Some v) u) =
        REJECTED (RpcError (JString (message er)) (GrpcStatus (code er)) (Some (grpcMetaToRpc (metadata er)))))
 \<and> (defMessage c = PENDING \<longrightarrow> defMessage (clientStreaming_callback (Some er) (Some v) c) = RESOLVED v)
 \<and> (defHeader c = PENDING \<longrightarrow>
      defHeader (clientStreaming_callback (Some er) (Some v) c) =
        REJECTED (RpcError (JString (message er)) (GrpcStatus (code er)) (Some (grpcMetaToRpc (metadata er)))))
 \<and> (defStatus c = PENDING \<longrightarrow>
      defStatus (clientStreaming_callback (Some er) (Some v) c) =
        REJECTED (RpcError (JString (message er)) (GrpcStatus (code er)) (Some (grpcMetaToRpc (metadata er)))))
 \<and> (defTrailer c = PENDING \<longrightarrow>
      defTrailer (clientStreaming_callback (Some er) (Some v) c) =
        REJECTED (RpcError (JString (message er)) (GrpcStatus (code er)) (Some (grpcMetaToRpc (metadata er)))))"
  by (simp add: unary_callback_def clientStreaming_callback_def Let_def pending_simps settled_simps)

text \<open>On new calls: the message resolves with the reply, the other three reject.\<close>

theorem callback_value_and_error_witness:
  "defMessage new_unary_call = PENDING \<and> defHeader new_unary_call = PENDING
 \<and> defStatus new_unary_call = PENDING \<and> defTrailer new_unary_call = PENDING
 \<and> defMessage new_clientStreaming_call = PENDING \<and> defHeader new_clientStreaming_call = PENDING
 \<and> defStatus new_clientStreaming_call = PENDING \<and> defTrailer new_clientStreaming_call = PENDING
 \<and> defMessage (unary_callback (Some unavailable_error) (Some ''reply'') new_unary_call) = RESOLVED ''reply''
 \<and> defHeader (unary_callback (Some unavailable_error) (Some ''reply'') new_unary_call) =
      REJECTED (RpcError (JString ''14 UNAVAILABLE: down'') (Some ''UNAVAILABLE'') (Some []))
 \<and> defStatus (unary_callback (Some unavailable_error) (Some ''reply'') new_unary_call) =
      REJECTED (RpcError (JString ''14 UNAVAILABLE: down'') (Some ''UNAVAILABLE'') (Some []))
 \<and> defTrailer (unary_callback (Some unavailable_error) (Some ''reply'') new_unary_call) =
      REJECTED (RpcError (JString ''14 UNAVAILABLE: down'') (Some ''UNAVAILABLE'') (Some []))
 \<and> defMessage (clientStreaming_callback (Some unavailable_error) (Some ''reply'') new_clientStreaming_call) =
      RESOLVED ''reply''
 \<and> defHeader (clientStreaming_callback (Some unavailable_error) (Some ''reply'') new_clientStreaming_call) =
      REJECTED (RpcError (JString ''14 UNAVAILABLE: down'') (Some ''UNAVAILABLE'') (Some []))
 \<and> defStatus (clientStreaming_callback (Some unavailable_error) (Some ''reply'') new_clientStreaming_call) =
      REJECTED (RpcError (JString ''14 UNAVAILABLE: down'') (Some ''UNAVAILABLE'') (Some []))
 \<and> defTrailer (clientStreaming_callback (Some unavailable_error) (Some ''reply'') new_clientStreaming_call) =
      REJECTED (RpcError (JString ''14 UNAVAILABLE: down'') (Some ''UNAVAILABLE'') (Some []))"
proof -
  have new: "defHeader new_unary_call = PENDING" "defMessage new_unary_call = PENDING"
    "defStatus new_unary_call = PENDING" "defTrailer new_unary_call = PENDING"
    "defHeader new_clientStreaming_call = PENDING" "defMessage new_clientStreaming_call = PENDING"
    "defStatus new_clientStreaming_call = PENDING" "defTrailer new_clientStreaming_call = PENDING"
    by (simp_all add: new_unary_call_def unary_def new_clientStreaming_call_def clientStreaming_def)
  have err: "message unavailable_error = ''14 UNAVAILABLE: down''"
    "GrpcStatus (code unavailable_error) = Some ''UNAVAILABLE''"
    "grpcMetaToRpc (metadata unavailable_error) = []"
    by (simp_all add: unavailable_error_def eval_defs)
  show ?thesis
    using callback_value_and_error
      [of new_unary_call unavailable_error "''reply''" new_clientStreaming_call] new err
    by simp
qed

text \<open>
  C9 as stated fails. A \<open>metadata\<close> event that comes before the callback resolves the
  header Deferred; the callback with a value and an error then leaves the header
  resolved and does not reject it.
\<close>

theorem callback_after_metadata_counterexample:
  "defHeader (unary_run [MetadataEvent (empty_Metadata)] new_unary_call) = RESOLVED []
 \<and> defHeader (unary_callback (Some unavailable_error) (Some ''reply'')
       (unary_run [MetadataEvent (empty_Metadata)] new_unary_call))
     \<noteq> REJECTED (RpcError (JString (message unavailable_error)) (GrpcStatus (code unavailable_error))
                  (Some (grpcMetaToRpc (metadata unavailable_error))))"
  by (simp add: sample_defs eval_defs)

subsection \<open>Settled Deferreds and closed streams under further events\<close>

lemma unary_deliver_settled:
  "(defHeader s \<noteq> PENDING \<longrightarrow> defHeader (unary_deliver ev s) = defHeader s)
 \<and> (defMessage s \<noteq> PENDING \<longrightarrow> defMessage (unary_deliver ev s) = defMessage s)
 \<and> (defStatus s \<noteq> PENDING \<longrightarrow> defStatus (unary_deliver ev s) = defStatus s)
 \<and> (defTrailer s \<noteq> PENDING \<longrightarrow> defTrailer (unary_deliver ev s) = defTrailer s)"
  by (cases ev)
     (auto simp: unary_callback_def unary_on_metadata_def unary_on_status_def on_abort_def
        Let_def settled_simps split: option.splits)

lemma clientStreaming_deliver_settled:
  "(defHeader s \<noteq> PENDING \<longrightarrow> defHeader (clientStreaming_deliver ev s) = defHeader s)
 \<and> (defMessage s \<noteq> PENDING \<longrightarrow> defMessage (clientStreaming_deliver ev s) = defMessage s)
 \<and> (defStatus s \<noteq> PENDING \<longrightarrow> defStatus (clientStreaming_deliver ev s) = defStatus s)
 \<and> (defTrailer s \<noteq> PENDING \<longrightarrow> defTrailer (clientStreaming_deliver ev s) = defTrailer s)"
  by (cases ev)
     (auto simp: clientStreaming_callback_def clientStreaming_on_metadata_def clientStreaming_on_status_def
        on_abort_def Let_def settled_simps split: option.splits)

lemma serverStreaming_deliver_settled:
  "(defHeader s \<noteq> PENDING \<longrightarrow> defHeader (serverStreaming_deliver method ev s) = defHeader s)
 \<and> (defStatus s \<noteq> PENDING \<longrightarrow> defStatus (serverStreaming_deliver method ev s) = defStatus s)
 \<and> (defTrailer s \<noteq> PENDING \<longrightarrow> defTrailer (serverStreaming_deliver method ev s) = defTrailer s)"
  by (cases ev)
     (auto simp: serverStreaming_deliver_def serverStreaming_on_error_def serverStreaming_on_end_def
        serverStreaming_on_data_def serverStreaming_on_metadata_def serverStreaming_on_status_def
        on_abort_def settled_simps split: sum.splits)

lemma serverStreaming_deliver_closed:
  "closed (outStream s) \<Longrightarrow> outStream (serverStreaming_deliver method ev s) = outStream s"
  by (cases ev)
     (auto simp: serverStreaming_deliver_def serverStreaming_on_error_def serverStreaming_on_end_def
        serverStreaming_on_data_def serverStreaming_on_metadata_def serverStreaming_on_status_def
        on_abort_def closed_notify split: sum.splits)

lemma unary_run_settled:
  "(defHeader s \<noteq> PENDING \<longrightarrow> defHeader (unary_run evs s) = defHeader s)
 \<and> (defMessage s \<noteq> PENDING \<longrightarrow> defMessage (unary_run evs s) = defMessage s)
 \<and> (defStatus s \<noteq> PENDING \<longrightarrow> defStatus (unary_run evs s) = defStatus s)
 \<and> (defTrailer s \<noteq> PENDING \<longrightarrow> defTrailer (unary_run evs s) = defTrailer s)"
proof (induction evs arbitrary: s)
  case Nil
  show ?case by (simp add: unary_run_def)
next
  case (Cons ev evs)
  have run: "unary_run (ev # evs) s = unary_run evs (unary_deliver ev s)"
    by (simp add: unary_run_def)
  show ?case
    unfolding run using Cons.IH [of "unary_deliver ev s"] unary_deliver_settled [of s ev]
    by metis
qed

lemma clientStreaming_run_settled:
  "(defHeader s \<noteq> PENDING \<longrightarrow> defHeader (clientStreaming_run evs s) = defHeader s)
 \<and> (defMessage s \<noteq> PENDING \<longrightarrow> defMessage (clientStreaming_run evs s) = defMessage s)
 \<and> (defStatus s \<noteq> PENDING \<longrightarrow> defStatus (clientStreaming_run evs s) = defStatus s)
 \<and> (defTrailer s \<noteq> PENDING \<longrightarrow> defTrailer (clientStreaming_run evs s) = defTrailer s)"
proof (induction evs arbitrary: s)
  case Nil
  show ?case by (simp add: clientStreaming_run_def)
next
  case (Cons ev evs)
  have run: "clientStreaming_run (ev # evs) s = clientStreaming_run evs (clientStreaming_deliver ev s)"
    by (simp add: clientStreaming_run_def)
  show ?case
    unfolding run
    using Cons.IH [of "clientStreaming_deliver ev s"] clientStreaming_deliver_settled [of s ev]
    by metis
qed

lemma serverStreaming_run_settled:
  "(defHeader s \<noteq> PENDING \<longrightarrow> defHeader (serverStreaming_run method evs s) = defHeader s)
 \<and> (defStatus s \<noteq> PENDING \<longrightarrow> defStatus (serverStreaming_run method evs s) = defStatus s)
 \<and> (defTrailer s \<noteq> PENDING \<longrightarrow> defTrailer (serverStreaming_run method evs s) = defTrailer s)"
proof (induction evs arbitrary: s)
  case Nil
  show ?case by (simp add: serverStreaming_run_def)
next
  case (Cons ev evs)
  have run: "serverStreaming_run method (ev # evs) s =
             serverStreaming_run method evs (serverStreaming_deliver method ev s)"
    by (simp add: serverStreaming_run_def)
  show ?case
    unfolding run
    using Cons.IH [of "serverStreaming_deliver method ev s"] serverStreaming_deliver_settled [of s _ ev]
    by metis
qed

lemma serverStreaming_run_closed:
  "closed (outStream s) \<Longrightarrow> outStream (serverStreaming_run method evs s) = outStream s"
proof (induction evs arbitrary: s)
  case Nil
  show ?case by (simp add: serverStreaming_run_def)
next
  case (Cons ev evs)
  have step: "outStream (serverStreaming_deliver method ev s) = outStream s"
    using Cons.prems by (rule serverStreaming_deliver_closed)
  then have "closed (outStream (serverStreaming_deliver method ev s))"
    using Cons.prems by simp
  then have "outStream (serverStreaming_run method evs (serverStreaming_deliver method ev s)) =
             outStream (serverStreaming_deliver method ev s)"
    by (rule Cons.IH)
  then show ?case using step by (simp add: serverStreaming_run_def)
qed

text \<open>
  C3. In every call shape a Deferred leaves the pending state at most once: once the
  header, message, status or trailer Deferred of a unary call \<open>u\<close>, of a
  client-streaming call \<open>c\<close> or of a server-streaming call \<open>s\<close> is settled, no
  further sequence of channel events (a second \<open>status\<close>, a second \<open>metadata\<close>, a
  late callback, \<open>error\<close>, \<open>end\<close>, \<open>data\<close>) changes its outcome; and once the output
  stream is closed, its closed state stays what it is.
\<close>

theorem single_settlement:
  "(defHeader u \<noteq> PENDING \<longrightarrow> defHeader (unary_run evs u) = defHeader u)
 \<and> (defMessage u \<noteq> PENDING \<longrightarrow> defMessage (unary_run evs u) = defMessage u)
 \<and> (defStatus u \<noteq> PENDING \<longrightarrow> defStatus (unary_run evs u) = defStatus u)
 \<and> (defTrailer u \<noteq> PENDING \<longrightarrow> defTrailer (unary_run evs u) = defTrailer u)
 \<and> (defHeader c \<noteq> PENDING \<longrightarrow> defHeader (clientStreaming_run cevs c) = defHeader c)
 \<and> (defMessage c \<noteq> PENDING \<longrightarrow> defMessage (clientStreaming_run cevs c) = defMessage c)
 \<and> (defStatus c \<noteq> PENDING \<longrightarrow> defStatus (clientStreaming_run cevs c) = defStatus c)
 \<and> (defTrailer c \<noteq> PENDING \<longrightarrow> defTrailer (clientStreaming_run cevs c) = defTrailer c)
 \<and> (defHeader s \<noteq> PENDING \<longrightarrow> defHeader (serverStreaming_run method sevs s) = defHeader s)
 \<and> (defStatus s \<noteq> PENDING \<longrightarrow> defStatus (serverStreaming_run method sevs s) = defStatus s)
 \<and> (defTrailer s \<noteq> PENDING \<longrightarrow> defTrailer (serverStreaming_run method sevs s) = defTrailer s)
 \<and> (stream_state (outStream s) \<noteq> OPEN \<longrightarrow>
       stream_state (outStream (serverStreaming_run method sevs s)) = stream_state (outStream s))"
  using unary_run_settled [of u evs] clientStreaming_run_settled [of c cevs]
    serverStreaming_run_settled [of s _ sevs] serverStreaming_run_closed [of s _ sevs]
  by (simp add: closed_def)

text \<open>
  On the three failed calls every Deferred is rejected and the stream is closed with
  the error; the late events, two \<open>status\<close> events among them, change none of it.
\<close>

theorem single_settlement_witness:
  "defHeader failed_unary_call \<noteq> PENDING \<and> defMessage failed_unary_call \<noteq> PENDING
 \<and> defStatus failed_unary_call \<noteq> PENDING \<and> defTrailer failed_unary_call \<noteq> PENDING
 \<and> defHeader failed_clientStreaming_call \<noteq> PENDING \<and> defMessage failed_clientStreaming_call \<noteq> PENDING
 \<and> defStatus failed_clientStreaming_call \<noteq> PENDING \<and> defTrailer failed_clientStreaming_call \<noteq> PENDING
 \<and> defHeader failed_serverStreaming_call \<noteq> PENDING \<and> defStatus failed_serverStreaming_call \<noteq> PENDING
 \<and> defTrailer failed_serverStreaming_call \<noteq> PENDING
 \<and> stream_state (outStream failed_serverStreaming_call) \<noteq> OPEN
 \<and> defHeader (unary_run late_events failed_unary_call) = defHeader failed_unary_call
 \<and> defMessage (unary_run late_events failed_unary_call) = defMessage failed_unary_call
 \<and> defStatus (unary_run late_events failed_unary_call) = defStatus failed_unary_call
 \<and> defTrailer (unary_run late_events failed_unary_call) = defTrailer failed_unary_call
 \<and> defHeader (clientStreaming_run late_events failed_clientStreaming_call) = defHeader failed_clientStreaming_call
 \<and> defMessage (clientStreaming_run late_events failed_clientStreaming_call) = defMessage failed_clientStreaming_call
 \<and> defStatus (clientStreaming_run late_events failed_clientStreaming_call) = defStatus failed_clientStreaming_call
 \<and> defTrailer (clientStreaming_run late_events failed_clientStreaming_call) = defTrailer failed_clientStreaming_call
 \<and> defHeader (serverStreaming_run sample_method late_stream_events failed_serverStreaming_call) =
      defHeader failed_serverStreaming_call
 \<and> defStatus (serverStreaming_run sample_method late_stream_events failed_serverStreaming_call) =
      defStatus failed_serverStreaming_call
 \<and> defTrailer (serverStreaming_run sample_method late_stream_events failed_serverStreaming_call) =
      defTrailer failed_serverStreaming_call
 \<and> stream_state (outStream (serverStreaming_run sample_method late_stream_events failed_serverStreaming_call)) =
      stream_state (outStream failed_serverStreaming_call)"
proof -
  have u: "defHeader failed_unary_call \<noteq> PENDING" "defMessage failed_unary_call \<noteq> PENDING"
    "defStatus failed_unary_call \<noteq> PENDING" "defTrailer failed_unary_call \<noteq> PENDING"
    by (simp_all add: sample_defs eval_defs)
  have c: "defHeader failed_clientStreaming_call \<noteq> PENDING" "defMessage failed_clientStreaming_call \<noteq> PENDING"
    "defStatus failed_clientStreaming_call \<noteq> PENDING" "defTrailer failed_clientStreaming_call \<noteq> PENDING"
    by (simp_all add: sample_defs eval_defs)
  have s: "defHeader failed_serverStreaming_call \<noteq> PENDING" "defStatus failed_serverStreaming_call \<noteq> PENDING"
    "defTrailer failed_serverStreaming_call \<noteq> PENDING"
    "stream_state (outStream failed_serverStreaming_call) \<noteq> OPEN"
    by (simp_all add: sample_defs eval_defs)
  show ?thesis
    using single_settlement [of failed_unary_call late_events failed_clientStreaming_call late_events
        failed_serverStreaming_call sample_method late_stream_events] u c s
    by simp
qed

text \<open>
  C6. Once the output stream controller of a server-streaming call is closed, no
  sequence of further channel events (\<open>data\<close>, \<open>error\<close>, \<open>end\<close> or any other)
  changes it: neither the messages pushed nor the way the stream was closed. On a
  closed controller \<open>notifyMessage\<close>, \<open>notifyError\<close> and \<open>notifyComplete\<close> have no
  effect.
\<close>

theorem closed_stream_ignores_events:
  "closed (outStream s) \<Longrightarrow>
     outStream (serverStreaming_run method evs s) = outStream s
   \<and> notifyMessage m (outStream s) = outStream s
   \<and> notifyError e (outStream s) = outStream s
   \<and> notifyComplete (outStream s) = outStream s"
  by (simp add: serverStreaming_run_closed closed_notify)

text \<open>
  A stream that pushed \<open>a\<close> and ended stays so under a late \<open>data\<close>, \<open>error\<close> and
  \<open>end\<close> event.
\<close>

theorem closed_stream_ignores_events_witness:
  "closed (outStream ended_serverStreaming_call)
 \<and> outStream (serverStreaming_run sample_method late_stream_events ended_serverStreaming_call) =
      \<lparr>pushed = [''a''], stream_state = CLOSED_NORMALLY\<rparr>"
proof -
  have ended: "outStream ended_serverStreaming_call = \<lparr>pushed = [''a''], stream_state = CLOSED_NORMALLY\<rparr>"
    by (simp add: sample_defs eval_defs)
  then have "closed (outStream ended_serverStreaming_call)"
    by (simp add: closed_def)
  then show ?thesis
    using closed_stream_ignores_events
      [of ended_serverStreaming_call sample_method late_stream_events] ended
    by simp
qed

subsection \<open>Cancellation\<close>

lemma unary_deliver_cancel:
  "abort_listener (unary_deliver ev s) = abort_listener s
 \<and> cancel_calls (unary_deliver ev s) = cancel_calls s + (if abort_listener s \<and> ev = AbortEvent then 1 else 0)"
  by (cases ev)
     (auto simp: unary_callback_def unary_on_metadata_def unary_on_status_def on_abort_def
        Let_def split: option.splits)

lemma clientStreaming_deliver_cancel:
  "abort_listener (clientStreaming_deliver ev s) = abort_listener s
 \<and> cancel_calls (clientStreaming_deliver ev s) = cancel_calls s + (if abort_listener s \<and> ev = AbortEvent then 1 else 0)"
  by (cases ev)
     (auto simp: clientStreaming_callback_def clientStreaming_on_metadata_def clientStreaming_on_status_def
        on_abort_def Let_def split: option.splits)

lemma serverStreaming_deliver_cancel:
  "abort_listener (serverStreaming_deliver method ev s) = abort_listener s
 \<and> cancel_calls (serverStreaming_deliver method ev s) =
     cancel_calls s + (if abort_listener s \<and> ev = StreamAbortEvent then 1 else 0)"
  by (cases ev)
     (auto simp: serverStreaming_deliver_def serverStreaming_on_error_def serverStreaming_on_end_def
        serverStreaming_on_data_def serverStreaming_on_metadata_def serverStreaming_on_status_def
        on_abort_def split: sum.splits)

lemma unary_run_cancel:
  "cancel_calls (unary_run evs s) =
     cancel_calls s + (if abort_listener s then count_list evs AbortEvent else 0)"
proof (induction evs arbitrary: s)
  case Nil
  show ?case by (simp add: unary_run_def)
next
  case (Cons ev evs)
  have run: "unary_run (ev # evs) s = unary_run evs (unary_deliver ev s)"
    by (simp add: unary_run_def)
  show ?case
    unfolding run Cons.IH using unary_deliver_cancel [of ev s] by simp
qed

lemma clientStreaming_run_cancel:
  "cancel_calls (clientStreaming_run evs s) =
     cancel_calls s + (if abort_listener s then count_list evs AbortEvent else 0)"
proof (induction evs arbitrary: s)
  case Nil
  show ?case by (simp add: clientStreaming_run_def)
next
  case (Cons ev evs)
  have run: "clientStreaming_run (ev # evs) s = clientStreaming_run evs (clientStreaming_deliver ev s)"
    by (simp add: clientStreaming_run_def)
  show ?case
    unfolding run Cons.IH using clientStreaming_deliver_cancel [of ev s] by simp
qed

lemma serverStreaming_run_cancel:
  "cancel_calls (serverStreaming_run method evs s) =
     cancel_calls s + (if abort_listener s then count_list evs StreamAbortEvent else 0)"
proof (induction evs arbitrary: s)
  case Nil
  show ?case by (simp add: serverStreaming_run_def)
next
  case (Cons ev evs)
  have run: "serverStreaming_run method (ev # evs) s =
             serverStreaming_run method evs (serverStreaming_deliver method ev s)"
    by (simp add: serverStreaming_run_def)
  show ?case
    unfolding run Cons.IH using serverStreaming_deliver_cancel [of _ ev s] by simp
qed

text \<open>
  C10. When the options carry a cancellation signal that is already aborted, a unary,
  server-streaming or client-streaming call that starts invokes \<open>cancel()\<close> not once
  in starting: the call only registers its listener. Afterwards \<open>cancel()\<close> has been
  invoked exactly as often as an \<open>abort\<close> event was delivered to that listener,
  whatever other channel events came in between; with no \<open>abort\<close> event there is no
  cancellation. (A call that the header set refuses to start returns no call at all.)
\<close>

theorem cancel_only_on_abort_event:
  assumes "abort opt = Some sig" and "aborted sig"
  shows "(fst (unary method input opt g) = Inr u \<longrightarrow>
            cancel_calls u = 0 \<and> cancel_calls (unary_run evs u) = count_list evs AbortEvent)
       \<and> (fst (serverStreaming method input opt g) = Inr s \<longrightarrow>
            cancel_calls s = 0
          \<and> cancel_calls (serverStreaming_run method sevs s) = count_list sevs StreamAbortEvent)
       \<and> (fst (clientStreaming method opt g) = Inr c \<longrightarrow>
            cancel_calls c = 0 \<and> cancel_calls (clientStreaming_run evs c) = count_list evs AbortEvent)"
  using assms(1)
  by (auto simp: unary_run_cancel serverStreaming_run_cancel clientStreaming_run_cancel
      unary_def serverStreaming_def clientStreaming_def split: sum.splits)

text \<open>
  The sample options carry an aborted signal: the three calls start, the new calls
  have no cancellation, and none comes from the late events, which hold no \<open>abort\<close>
  event.
\<close>

theorem cancel_only_on_abort_event_witness:
  "abort sample_options = Some \<lparr>aborted = True\<rparr> \<and> aborted \<lparr>aborted = True\<rparr>
 \<and> fst (unary sample_method ''request'' sample_options no_requests) = Inr new_unary_call
 \<and> fst (serverStreaming sample_method ''request'' sample_options no_requests) = Inr new_serverStreaming_call
 \<and> fst (clientStreaming sample_method sample_options no_requests) = Inr new_clientStreaming_call
 \<and> cancel_calls new_unary_call = 0
 \<and> cancel_calls new_serverStreaming_call = 0
 \<and> cancel_calls new_clientStreaming_call = 0
 \<and> cancel_calls (unary_run late_events new_unary_call) = 0
 \<and> cancel_calls (serverStreaming_run sample_method late_stream_events new_serverStreaming_call) = 0
 \<and> cancel_calls (clientStreaming_run late_events new_clientStreaming_call) = 0"
proof -
  have sig: "abort sample_options = Some \<lparr>aborted = True\<rparr>" "aborted \<lparr>aborted = True\<rparr>"
    by (simp_all add: sample_options_def)
  have started: "fst (unary sample_method ''request'' sample_options no_requests) = Inr new_unary_call"
    "fst (serverStreaming sample_method ''request'' sample_options no_requests) = Inr new_serverStreaming_call"
    "fst (clientStreaming sample_method sample_options no_requests) = Inr new_clientStreaming_call"
    by (simp_all add: unary_def serverStreaming_def clientStreaming_def request_meta_def rpcMetaToGrpc_def
        sample_options_def no_requests_def new_unary_call_def new_serverStreaming_call_def
        new_clientStreaming_call_def)
  have none: "count_list late_events AbortEvent = 0" "count_list late_stream_events StreamAbortEvent = 0"
    by (simp_all add: late_events_def late_stream_events_def)
  show ?thesis
    using cancel_only_on_abort_event
      [OF sig, of sample_method "''request''" no_requests new_unary_call late_events
        new_serverStreaming_call late_stream_events new_clientStreaming_call] sig started none
    by simp
qed

subsection \<open>Duplex streaming\<close>

text \<open>
  C7. For every method descriptor and every options value \<open>duplex\<close> throws the error
  \<open>NOT IMPLEMENTED\<close> at once, and the channel library is left as it was: no client is
  constructed and no request is opened.
\<close>

theorem duplex_not_implemented:
  "duplex method options g = (Inl (Error ''NOT IMPLEMENTED''), g)"
  by (simp add: duplex_def)

lemma unary_opens_request:
  "fst (unary method input opt g) = Inr u \<Longrightarrow>
     length (clients (snd (unary method input opt g))) = Suc (length (clients g))
   \<and> length (requests (snd (unary method input opt g))) = Suc (length (requests g))"
  by (auto simp: unary_def split: sum.splits)

subsection \<open>The error classifier\<close>










subsection \<open>The metadata codec\<close>








end
